theory Spec2Isabelle
  imports Main "HOL-Library.Sublist"
begin

section \<open>The ThemedImage component of evm.guide\<close>

text \<open>
  The component (\<^verbatim>\<open>ThemedImage.astro\<close>) has a frontmatter script and a template.
  The script normalises the two caller-supplied references, looks both up in the
  Asset Collection \<^verbatim>\<open>images\<close> (the object returned by \<^verbatim>\<open>import.meta.glob\<close>) and throws
  when one is missing; the template then emits two \<^verbatim>\<open>Image\<close> elements.

  JavaScript strings are modelled as \<^typ>\<open>string\<close>, the thrown \<^verbatim>\<open>Error\<close> as a value of a
  sum type, the Asset Collection as a map from keys to loaders, and the script as a
  function that takes the collection and returns it next to its result, so that what the
  script does to the collection is part of the model.
\<close>

subsection \<open>Data\<close>

text \<open>
  \<^verbatim>\<open>type Props = { dark: string; light: string; alt: string; class?: string | undefined }\<close>.
  The optional \<^verbatim>\<open>class\<close> is \<^term>\<open>None\<close> when the caller leaves it out (the value
  \<^verbatim>\<open>undefined\<close>).
\<close>

record props =
  dark :: string
  light :: string
  alt :: string
  class_prop :: "string option"

text \<open>
  A loader is a function without arguments that produces the asset's metadata; the
  Asset Collection maps exact path strings to loaders. Every value stored in the
  collection is a function, hence truthy, so \<^verbatim>\<open>!images[k]\<close> holds exactly when the key
  is absent.
\<close>

type_synonym 'm loader = "unit \<Rightarrow> 'm"

type_synonym 'm images = "string \<rightharpoonup> 'm loader"

text \<open>One \<^verbatim>\<open><Image src=... alt=... class=... />\<close> element of the template.\<close>

record 'm image_el =
  src_attr :: 'm
  alt_attr :: string
  class_attr :: string

text \<open>
  \<^verbatim>\<open>Error msg\<close> is the error thrown by the script. \<^verbatim>\<open>TypeError\<close> is what calling
  \<^verbatim>\<open>images[k]()\<close> raises when \<^verbatim>\<open>images[k]\<close> is \<^verbatim>\<open>undefined\<close>.
\<close>

datatype error = Error string | TypeError

subsection \<open>Strings\<close>

text \<open>
  \<^verbatim>\<open>String.prototype.startsWith(searchString)\<close> at position 0: false when the search
  string is longer than the string, otherwise the comparison of the leading code units.
\<close>

definition startsWith :: "string \<Rightarrow> string \<Rightarrow> bool" where
  "startsWith s searchString =
     (if length searchString > length s then False
      else take (length searchString) s = searchString)"

text \<open>
  String conversion of a \<^verbatim>\<open>string | undefined\<close> value inside a template literal:
  \<^verbatim>\<open>undefined\<close> becomes the text \<^verbatim>\<open>undefined\<close>.
\<close>

fun toString :: "string option \<Rightarrow> string" where
  "toString None = ''undefined''"
| "toString (Some s) = s"

subsection \<open>The frontmatter script\<close>

text \<open>
  \<^verbatim>\<open>"/src/assets" + (raw.startsWith("/") ? "" : "/") + raw\<close>, the expression that computes
  both \<^verbatim>\<open>dark\<close> and \<^verbatim>\<open>light\<close>.
\<close>

definition normalized_key :: "string \<Rightarrow> string" where
  "normalized_key raw = ''/src/assets'' @ (if startsWith raw ''/'' then '''' else ''/'') @ raw"

definition GLOB :: string where
  "GLOB = ''/src/assets/**/*.{jpeg,jpg,png,gif,svg}''"

text \<open>
  The message of the thrown error: the key in double quotes, the text
  \<^verbatim>\<open> does not exist in glob: \<close> and the glob pattern in double quotes.
\<close>

definition not_found :: "string \<Rightarrow> error" where
  "not_found key =
     Error ([CHR 0x22] @ key @ [CHR 0x22] @ '' does not exist in glob: '' @ [CHR 0x22] @ GLOB @ [CHR 0x22])"

text \<open>Reading \<^verbatim>\<open>images[key]\<close>: the value found and the collection as it is afterwards.\<close>

definition images_get :: "string \<Rightarrow> 'm images \<Rightarrow> 'm loader option \<times> 'm images" where
  "images_get key images = (images key, images)"

text \<open>
  The two existence checks, dark first. On success the script leaves the two normalised
  keys to the template.
\<close>

definition frontmatter :: "props \<Rightarrow> 'm images \<Rightarrow> (error + string \<times> string) \<times> 'm images" where
  "frontmatter p images =
     (let darkK = normalized_key (dark p);
          lightK = normalized_key (light p);
          (d, images1) = images_get darkK images
      in if d = None then (Inl (not_found darkK), images1)
         else let (l, images2) = images_get lightK images1
              in if l = None then (Inl (not_found lightK), images2)
                 else (Inr (darkK, lightK), images2))"

subsection \<open>The template\<close>

text \<open>\<^verbatim>\<open>images[key]()\<close>: look the loader up and call it.\<close>

definition images_call :: "string \<Rightarrow> 'm images \<Rightarrow> (error + 'm) \<times> 'm images" where
  "images_call key images =
     (case images_get key images of
        (None, images1) \<Rightarrow> (Inl TypeError, images1)
      | (Some f, images1) \<Rightarrow> (Inr (f ()), images1))"

definition dark_class :: "props \<Rightarrow> string" where
  "dark_class p = ''!hidden dark:!block '' @ toString (class_prop p)"

definition light_class :: "props \<Rightarrow> string" where
  "light_class p = ''block dark:hidden '' @ toString (class_prop p)"

definition template :: "props \<Rightarrow> string \<Rightarrow> string \<Rightarrow> 'm images \<Rightarrow> (error + 'm image_el list) \<times> 'm images" where
  "template p darkK lightK images =
     (case images_call darkK images of
        (Inl e, images1) \<Rightarrow> (Inl e, images1)
      | (Inr ds, images1) \<Rightarrow>
          (case images_call lightK images1 of
             (Inl e, images2) \<Rightarrow> (Inl e, images2)
           | (Inr ls, images2) \<Rightarrow>
               (Inr [\<lparr>src_attr = ds, alt_attr = alt p, class_attr = dark_class p\<rparr>,
                     \<lparr>src_attr = ls, alt_attr = alt p, class_attr = light_class p\<rparr>],
                images2)))"

subsection \<open>The component\<close>

text \<open>
  The script runs first; when it throws, the template is never reached and nothing is
  emitted.
\<close>

definition ThemedImage :: "props \<Rightarrow> 'm images \<Rightarrow> (error + 'm image_el list) \<times> 'm images" where
  "ThemedImage p images =
     (case frontmatter p images of
        (Inl e, images1) \<Rightarrow> (Inl e, images1)
      | (Inr (darkK, lightK), images1) \<Rightarrow> template p darkK lightK images1)"

text \<open>What the component hands to the page: the elements, or the error.\<close>

definition rendered :: "props \<Rightarrow> 'm images \<Rightarrow> error + 'm image_el list" where
  "rendered p images = fst (ThemedImage p images)"

section \<open>Properties\<close>

subsection \<open>Helper facts\<close>

lemma startsWith_slash_iff: "startsWith r ''/'' \<longleftrightarrow> prefix ''/'' r"
  by (cases r) (auto simp: startsWith_def)

lemma normalized_key_slash: "normalized_key (CHR ''/'' # t) = ''/src/assets/'' @ t"
  by (simp add: normalized_key_def startsWith_def)

lemma normalized_key_no_slash: "\<not> prefix ''/'' r \<Longrightarrow> normalized_key r = ''/src/assets/'' @ r"
  by (simp add: normalized_key_def startsWith_slash_iff)

lemma ThemedImage_eq:
  "ThemedImage p images =
     (case images (normalized_key (dark p)) of
        None \<Rightarrow> (Inl (not_found (normalized_key (dark p))), images)
      | Some f \<Rightarrow>
          (case images (normalized_key (light p)) of
             None \<Rightarrow> (Inl (not_found (normalized_key (light p))), images)
           | Some g \<Rightarrow>
               (Inr [\<lparr>src_attr = f (), alt_attr = alt p, class_attr = dark_class p\<rparr>,
                     \<lparr>src_attr = g (), alt_attr = alt p, class_attr = light_class p\<rparr>],
                images)))"
  by (simp add: ThemedImage_def frontmatter_def template_def images_call_def
      images_get_def Let_def split: option.splits)

lemma rendered_dark_missing:
  "images (normalized_key (dark p)) = None \<Longrightarrow>
   rendered p images = Inl (not_found (normalized_key (dark p)))"
  by (simp add: rendered_def ThemedImage_eq)

lemma rendered_light_missing:
  "images (normalized_key (dark p)) = Some f \<Longrightarrow> images (normalized_key (light p)) = None \<Longrightarrow>
   rendered p images = Inl (not_found (normalized_key (light p)))"
  by (simp add: rendered_def ThemedImage_eq)

lemma rendered_present:
  "images (normalized_key (dark p)) = Some f \<Longrightarrow> images (normalized_key (light p)) = Some g \<Longrightarrow>
   rendered p images =
     Inr [\<lparr>src_attr = f (), alt_attr = alt p, class_attr = dark_class p\<rparr>,
          \<lparr>src_attr = g (), alt_attr = alt p, class_attr = light_class p\<rparr>]"
  by (simp add: rendered_def ThemedImage_eq)

lemma rendered_no_TypeError: "rendered p images \<noteq> Inl TypeError"
  by (simp add: rendered_def ThemedImage_eq not_found_def split: option.splits)

lemma not_found_inject: "not_found a = not_found b \<longleftrightarrow> a = b"
  by (simp add: not_found_def)

lemma not_found_names_key: "not_found key = Error msg \<Longrightarrow> sublist key msg"
proof -
  assume "not_found key = Error msg"
  then have "msg = [CHR 0x22] @ key @ ([CHR 0x22] @ '' does not exist in glob: '' @ [CHR 0x22] @ GLOB @ [CHR 0x22])"
    by (simp add: not_found_def)
  then show ?thesis
    by (simp only: sublist_appendI)
qed

lemma not_found_names_GLOB: "not_found key = Error msg \<Longrightarrow> sublist GLOB msg"
proof -
  assume "not_found key = Error msg"
  then have "msg = ([CHR 0x22] @ key @ [CHR 0x22] @ '' does not exist in glob: '' @ [CHR 0x22]) @ GLOB @ [CHR 0x22]"
    by (simp add: not_found_def)
  then show ?thesis
    by (simp only: sublist_appendI)
qed

lemma classes_differ: "dark_class p \<noteq> light_class p"
  by (simp add: dark_class_def light_class_def)

lemma sublist_append_right: "sublist c (xs @ c)"
  using sublist_appendI [of c xs "[]"] by simp

text \<open>Neither part of the component changes the collection it reads.\<close>

lemma frontmatter_frame: "snd (frontmatter p images) = images"
  by (simp add: frontmatter_def images_get_def Let_def)

lemma template_frame: "snd (template p darkK lightK images) = images"
  by (simp add: template_def images_call_def images_get_def split: option.splits)

text \<open>The utility classes at the head of both class strings do not depend on the props.\<close>

lemma class_tokens_fixed:
  "prefix ''!hidden dark:!block '' (dark_class p) \<and> prefix ''block dark:hidden '' (light_class p)"
  by (simp add: dark_class_def light_class_def)

subsection \<open>Normalisation of a reference\<close>

text \<open>
  Claim C3. For every reference \<open>r\<close> that does not start with the path separator
  \<^verbatim>\<open>/\<close>, the lookup key is the fixed root \<^verbatim>\<open>/src/assets\<close>, then \<^verbatim>\<open>/\<close>, then \<open>r\<close>;
  for every reference that already starts with \<^verbatim>\<open>/\<close>, the key is the fixed root
  followed by \<open>r\<close>, with no separator inserted.
\<close>

theorem normalized_key_spec:
  "(\<not> prefix ''/'' r \<longrightarrow> normalized_key r = ''/src/assets'' @ ''/'' @ r) \<and>
   (prefix ''/'' r \<longrightarrow> normalized_key r = ''/src/assets'' @ r)"
  by (simp add: normalized_key_def startsWith_slash_iff)

theorem normalized_key_spec_witness:
  "\<not> prefix ''/'' ''nonexistent.svg'' \<and>
   normalized_key ''nonexistent.svg'' = ''/src/assets/nonexistent.svg'' \<and>
   prefix ''/'' ''/logo.png'' \<and>
   normalized_key ''/logo.png'' = ''/src/assets/logo.png''"
  using normalized_key_spec [of "''nonexistent.svg''"] normalized_key_spec [of "''/logo.png''"]
  by simp

subsection \<open>The existence checks\<close>

text \<open>
  Claim C1. Whenever at least one of the two normalised keys is absent from the Asset
  Collection, the component throws an \<^verbatim>\<open>Error\<close> and hands no element to the page:
  the result is the error, never a list of elements.
\<close>

theorem missing_asset_throws:
  "images (normalized_key (dark p)) = None \<or> images (normalized_key (light p)) = None \<Longrightarrow>
   (\<exists>msg. rendered p images = Inl (Error msg)) \<and> (\<forall>els. rendered p images \<noteq> Inr els)"
  by (auto simp: rendered_def ThemedImage_eq not_found_def split: option.splits)

theorem missing_asset_throws_witness:
  "([''/src/assets/a.svg'' \<mapsto> (\<lambda>_. 1::nat)] (normalized_key ''a.svg'') = None \<or>
    [''/src/assets/a.svg'' \<mapsto> (\<lambda>_. 1::nat)] (normalized_key ''missing.svg'') = None) \<and>
   (\<exists>msg. rendered \<lparr>dark = ''a.svg'', light = ''missing.svg'', alt = ''A'', class_prop = None\<rparr>
            [''/src/assets/a.svg'' \<mapsto> (\<lambda>_. 1::nat)] = Inl (Error msg))"
  using missing_asset_throws [of "[''/src/assets/a.svg'' \<mapsto> (\<lambda>_. 1::nat)]"
      "\<lparr>dark = ''a.svg'', light = ''missing.svg'', alt = ''A'', class_prop = None\<rparr>"]
  by (simp add: normalized_key_def startsWith_def)

text \<open>
  Claim C2. Whenever both normalised keys are present in the Asset Collection, the
  component throws nothing and emits exactly two elements, the dark one and the light
  one, each carrying the caller's alt text unchanged and the metadata produced by its
  own loader.
\<close>

theorem present_assets_render:
  "images (normalized_key (dark p)) = Some f \<Longrightarrow> images (normalized_key (light p)) = Some g \<Longrightarrow>
   \<exists>d l. rendered p images = Inr [d, l] \<and> d \<noteq> l \<and>
     alt_attr d = alt p \<and> alt_attr l = alt p \<and> src_attr d = f () \<and> src_attr l = g ()"
  by (simp add: rendered_present classes_differ)

theorem present_assets_render_witness:
  "[''/src/assets/d.svg'' \<mapsto> (\<lambda>_. ''D''), ''/src/assets/l.svg'' \<mapsto> (\<lambda>_. ''L'')]
     (normalized_key ''d.svg'') = Some (\<lambda>_. ''D'') \<and>
   [''/src/assets/d.svg'' \<mapsto> (\<lambda>_. ''D''), ''/src/assets/l.svg'' \<mapsto> (\<lambda>_. ''L'')]
     (normalized_key ''/l.svg'') = Some (\<lambda>_. ''L'') \<and>
   (\<exists>d l. rendered \<lparr>dark = ''d.svg'', light = ''/l.svg'', alt = ''Diagram'', class_prop = None\<rparr>
            [''/src/assets/d.svg'' \<mapsto> (\<lambda>_. ''D''), ''/src/assets/l.svg'' \<mapsto> (\<lambda>_. ''L'')] = Inr [d, l] \<and>
          alt_attr d = ''Diagram'' \<and> alt_attr l = ''Diagram'' \<and>
          src_attr d = ''D'' \<and> src_attr l = ''L'')"
  using present_assets_render
    [of "[''/src/assets/d.svg'' \<mapsto> (\<lambda>_. ''D''), ''/src/assets/l.svg'' \<mapsto> (\<lambda>_. ''L'')]"
        "\<lparr>dark = ''d.svg'', light = ''/l.svg'', alt = ''Diagram'', class_prop = None\<rparr>"
        "\<lambda>_. ''D''" "\<lambda>_. ''L''"]
  by (auto simp: normalized_key_def startsWith_def)

text \<open>
  Claim C9. The dark reference is checked before the light one: when both normalised
  keys are absent, the error thrown is the one of the dark check, built from the dark
  reference's normalised key; when the two keys differ it is not the error the light
  check would have thrown.
\<close>

theorem dark_checked_first:
  "images (normalized_key (dark p)) = None \<Longrightarrow> images (normalized_key (light p)) = None \<Longrightarrow>
   rendered p images = Inl (not_found (normalized_key (dark p))) \<and>
   (normalized_key (dark p) \<noteq> normalized_key (light p) \<longrightarrow>
      rendered p images \<noteq> Inl (not_found (normalized_key (light p))))"
  by (simp add: rendered_dark_missing not_found_inject)

theorem dark_checked_first_witness:
  "[''/src/assets/present.svg'' \<mapsto> (\<lambda>_. ''P'')] (normalized_key ''a.svg'') = None \<and>
   [''/src/assets/present.svg'' \<mapsto> (\<lambda>_. ''P'')] (normalized_key ''/b.svg'') = None \<and>
   rendered \<lparr>dark = ''a.svg'', light = ''/b.svg'', alt = ''A'', class_prop = None\<rparr>
     [''/src/assets/present.svg'' \<mapsto> (\<lambda>_. ''P'')] = Inl (not_found ''/src/assets/a.svg'') \<and>
   rendered \<lparr>dark = ''a.svg'', light = ''/b.svg'', alt = ''A'', class_prop = None\<rparr>
     [''/src/assets/present.svg'' \<mapsto> (\<lambda>_. ''P'')] \<noteq> Inl (not_found ''/src/assets/b.svg'')"
  using dark_checked_first
    [of "[''/src/assets/present.svg'' \<mapsto> (\<lambda>_. ''P'')]"
        "\<lparr>dark = ''a.svg'', light = ''/b.svg'', alt = ''A'', class_prop = None\<rparr>"]
  by (auto simp: normalized_key_def startsWith_def)

subsection \<open>The error message\<close>

text \<open>
  Claim C5. When a normalised key is absent, the message of the thrown error contains a
  normalised key that is absent from the collection (the offending reference, in its
  normalised form) and the discovery glob pattern
  \<^verbatim>\<open>/src/assets/**/*.{jpeg,jpg,png,gif,svg}\<close>.
\<close>

theorem error_message_names_key_and_glob:
  "images (normalized_key (dark p)) = None \<or> images (normalized_key (light p)) = None \<Longrightarrow>
   \<exists>key msg. rendered p images = Inl (Error msg) \<and>
     key \<in> {normalized_key (dark p), normalized_key (light p)} \<and> images key = None \<and>
     sublist key msg \<and> sublist GLOB msg"
proof (cases "images (normalized_key (dark p))")
  case None
  obtain msg where m: "not_found (normalized_key (dark p)) = Error msg"
    by (simp add: not_found_def)
  with None have "rendered p images = Inl (Error msg)"
    by (simp add: rendered_dark_missing)
  with None m show ?thesis
    by (blast intro: not_found_names_key not_found_names_GLOB)
next
  case (Some f)
  assume "images (normalized_key (dark p)) = None \<or> images (normalized_key (light p)) = None"
  with Some have l: "images (normalized_key (light p)) = None"
    by simp
  obtain msg where m: "not_found (normalized_key (light p)) = Error msg"
    by (simp add: not_found_def)
  with Some l have "rendered p images = Inl (Error msg)"
    by (simp add: rendered_light_missing)
  with l m show ?thesis
    by (blast intro: not_found_names_key not_found_names_GLOB)
qed

theorem error_message_names_key_and_glob_witness:
  "[''/src/assets/present.svg'' \<mapsto> (\<lambda>_. ''P'')] (normalized_key ''nonexistent.svg'') = None \<and>
   (\<exists>msg. rendered \<lparr>dark = ''nonexistent.svg'', light = ''present.svg'', alt = ''A'', class_prop = None\<rparr>
            [''/src/assets/present.svg'' \<mapsto> (\<lambda>_. ''P'')] = Inl (Error msg) \<and>
          sublist ''/src/assets/nonexistent.svg'' msg \<and>
          sublist ''/src/assets/**/*.{jpeg,jpg,png,gif,svg}'' msg)"
  using error_message_names_key_and_glob [of "[''/src/assets/present.svg'' \<mapsto> (\<lambda>_. ''P'')]"
      "\<lparr>dark = ''nonexistent.svg'', light = ''present.svg'', alt = ''A'', class_prop = None\<rparr>"]
  by (auto simp: normalized_key_def startsWith_def GLOB_def)

subsection \<open>The class attributes\<close>

text \<open>
  Claim C6. When the caller supplies the extra class \<open>c\<close>, the class string of the
  dark element is its visibility rule \<^verbatim>\<open>!hidden dark:!block\<close> followed by \<open>c\<close>, and
  the class string of the light element is its visibility rule
  \<^verbatim>\<open>block dark:hidden\<close> followed by \<open>c\<close>; so both contain \<open>c\<close>.
\<close>

theorem extra_class_in_both:
  "class_prop p = Some c \<Longrightarrow>
   images (normalized_key (dark p)) = Some f \<Longrightarrow> images (normalized_key (light p)) = Some g \<Longrightarrow>
   \<exists>d l. rendered p images = Inr [d, l] \<and>
     class_attr d = ''!hidden dark:!block '' @ c \<and> class_attr l = ''block dark:hidden '' @ c \<and>
     sublist c (class_attr d) \<and> sublist c (class_attr l)"
proof -
  assume c: "class_prop p = Some c"
    and d: "images (normalized_key (dark p)) = Some f"
    and l: "images (normalized_key (light p)) = Some g"
  have "sublist c (''!hidden dark:!block '' @ c)" and "sublist c (''block dark:hidden '' @ c)"
    by (rule sublist_append_right)+
  moreover from c have "dark_class p = ''!hidden dark:!block '' @ c"
    and "light_class p = ''block dark:hidden '' @ c"
    by (simp_all add: dark_class_def light_class_def)
  ultimately show ?thesis
    by (simp add: rendered_present [OF d l])
qed

theorem extra_class_in_both_witness:
  "class_prop \<lparr>dark = ''d.svg'', light = ''l.svg'', alt = ''A'', class_prop = Some ''w-full''\<rparr> = Some ''w-full'' \<and>
   [''/src/assets/d.svg'' \<mapsto> (\<lambda>_. ''D''), ''/src/assets/l.svg'' \<mapsto> (\<lambda>_. ''L'')]
     (normalized_key ''d.svg'') = Some (\<lambda>_. ''D'') \<and>
   [''/src/assets/d.svg'' \<mapsto> (\<lambda>_. ''D''), ''/src/assets/l.svg'' \<mapsto> (\<lambda>_. ''L'')]
     (normalized_key ''l.svg'') = Some (\<lambda>_. ''L'') \<and>
   (\<exists>d l. rendered \<lparr>dark = ''d.svg'', light = ''l.svg'', alt = ''A'', class_prop = Some ''w-full''\<rparr>
            [''/src/assets/d.svg'' \<mapsto> (\<lambda>_. ''D''), ''/src/assets/l.svg'' \<mapsto> (\<lambda>_. ''L'')] = Inr [d, l] \<and>
          class_attr d = ''!hidden dark:!block w-full'' \<and>
          class_attr l = ''block dark:hidden w-full'')"
  using extra_class_in_both
    [of "\<lparr>dark = ''d.svg'', light = ''l.svg'', alt = ''A'', class_prop = Some ''w-full''\<rparr>" "''w-full''"
        "[''/src/assets/d.svg'' \<mapsto> (\<lambda>_. ''D''), ''/src/assets/l.svg'' \<mapsto> (\<lambda>_. ''L'')]"
        "\<lambda>_. ''D''" "\<lambda>_. ''L''"]
  by (auto simp: normalized_key_def startsWith_def)

text \<open>
  Claim C8. When the caller leaves the class out, the template literal still
  interpolates it, so both class strings end with the text \<^verbatim>\<open>undefined\<close>:
  \<^verbatim>\<open>!hidden dark:!block undefined\<close> and \<^verbatim>\<open>block dark:hidden undefined\<close>.
\<close>

theorem absent_class_is_undefined:
  "class_prop p = None \<Longrightarrow>
   images (normalized_key (dark p)) = Some f \<Longrightarrow> images (normalized_key (light p)) = Some g \<Longrightarrow>
   \<exists>d l. rendered p images = Inr [d, l] \<and>
     class_attr d = ''!hidden dark:!block undefined'' \<and>
     class_attr l = ''block dark:hidden undefined'' \<and>
     suffix ''undefined'' (class_attr d) \<and> suffix ''undefined'' (class_attr l)"
proof -
  have "suffix ''undefined'' (''!hidden dark:!block '' @ ''undefined'')"
    and "suffix ''undefined'' (''block dark:hidden '' @ ''undefined'')"
    by (rule suffix_appendI, rule suffix_order.refl)+
  then show "class_prop p = None \<Longrightarrow>
   images (normalized_key (dark p)) = Some f \<Longrightarrow> images (normalized_key (light p)) = Some g \<Longrightarrow> ?thesis"
    by (simp add: rendered_present dark_class_def light_class_def)
qed

theorem absent_class_is_undefined_witness:
  "class_prop \<lparr>dark = ''d.svg'', light = ''l.svg'', alt = ''A'', class_prop = None\<rparr> = None \<and>
   [''/src/assets/d.svg'' \<mapsto> (\<lambda>_. ''D''), ''/src/assets/l.svg'' \<mapsto> (\<lambda>_. ''L'')]
     (normalized_key ''d.svg'') = Some (\<lambda>_. ''D'') \<and>
   [''/src/assets/d.svg'' \<mapsto> (\<lambda>_. ''D''), ''/src/assets/l.svg'' \<mapsto> (\<lambda>_. ''L'')]
     (normalized_key ''l.svg'') = Some (\<lambda>_. ''L'') \<and>
   (\<exists>d l. rendered \<lparr>dark = ''d.svg'', light = ''l.svg'', alt = ''A'', class_prop = None\<rparr>
            [''/src/assets/d.svg'' \<mapsto> (\<lambda>_. ''D''), ''/src/assets/l.svg'' \<mapsto> (\<lambda>_. ''L'')] = Inr [d, l] \<and>
          class_attr d = ''!hidden dark:!block undefined'' \<and>
          class_attr l = ''block dark:hidden undefined'')"
  using absent_class_is_undefined
    [of "\<lparr>dark = ''d.svg'', light = ''l.svg'', alt = ''A'', class_prop = None\<rparr>"
        "[''/src/assets/d.svg'' \<mapsto> (\<lambda>_. ''D''), ''/src/assets/l.svg'' \<mapsto> (\<lambda>_. ''L'')]"
        "\<lambda>_. ''D''" "\<lambda>_. ''L''"]
  by (auto simp: normalized_key_def startsWith_def)

subsection \<open>The Asset Collection is only read\<close>

text \<open>
  Claim C7. The component never changes the Asset Collection: whether it throws or
  emits its elements, the collection after the run is the collection before it.
\<close>

theorem images_unchanged: "snd (ThemedImage p images) = images"
  by (simp add: ThemedImage_eq split: option.splits)

subsection \<open>Normalisation is not injective\<close>

text \<open>
  Claim C10. Distinct references can normalise to the same key: for every \<open>s\<close> that
  does not start with \<^verbatim>\<open>/\<close>, the two different references \<open>s\<close> and \<^verbatim>\<open>/\<close> followed
  by \<open>s\<close> both normalise to \<^verbatim>\<open>/src/assets/\<close> followed by \<open>s\<close>.
\<close>

theorem normalized_key_not_injective:
  "\<not> inj normalized_key \<and>
   (\<forall>s. \<not> prefix ''/'' s \<longrightarrow>
      s \<noteq> ''/'' @ s \<and>
      normalized_key s = ''/src/assets/'' @ s \<and>
      normalized_key (''/'' @ s) = ''/src/assets/'' @ s)"
proof
  have "normalized_key '''' = normalized_key ''/''"
    by (simp add: normalized_key_def startsWith_def)
  then show "\<not> inj normalized_key"
    by (auto dest: injD)
next
  show "\<forall>s. \<not> prefix ''/'' s \<longrightarrow>
      s \<noteq> ''/'' @ s \<and>
      normalized_key s = ''/src/assets/'' @ s \<and>
      normalized_key (''/'' @ s) = ''/src/assets/'' @ s"
    by (simp add: normalized_key_no_slash normalized_key_slash)
qed

theorem normalized_key_not_injective_witness:
  "\<not> prefix ''/'' ''logo.png'' \<and> ''logo.png'' \<noteq> ''/logo.png'' \<and>
   normalized_key ''logo.png'' = ''/src/assets/logo.png'' \<and>
   normalized_key ''/logo.png'' = ''/src/assets/logo.png''"
  using normalized_key_not_injective [THEN conjunct2, THEN spec, of "''logo.png''"]
  by simp

end
